theory Spec2Isabelle
  imports Main "HOL-Library.Word"
begin

section \<open>Python exceptions\<close>

text \<open>
  The script \<^verbatim>\<open>convertidor.py\<close> is one \<^verbatim>\<open>try\<close> statement with three handlers,
  \<^verbatim>\<open>except FileNotFoundError\<close>, \<^verbatim>\<open>except ValueError\<close> and \<^verbatim>\<open>except Exception\<close>,
  tried in this order. A handler matches an exception whose class is the named class or
  one of its subclasses, so the model keeps the part of Python's class hierarchy that
  the calls of the script can raise.
\<close>

datatype exc_class =
    BaseException
  | KeyboardInterrupt
  | Exception
  | OSError
  | FileNotFoundError
  | IsADirectoryError
  | PermissionError
  | ValueError
  | DateParseError
  | ParserError
  | TypeError
  | ImportError

text \<open>The proper ancestors of a class, nearest first (its method resolution order
  without the class itself). \<^verbatim>\<open>pandas.errors.ParserError\<close> and the error raised by
  \<^verbatim>\<open>pandas.to_datetime\<close> on text that is no date both derive from \<^verbatim>\<open>ValueError\<close>.\<close>

fun superclasses :: "exc_class \<Rightarrow> exc_class list" where
  "superclasses BaseException = []"
| "superclasses KeyboardInterrupt = [BaseException]"
| "superclasses Exception = [BaseException]"
| "superclasses OSError = [Exception, BaseException]"
| "superclasses FileNotFoundError = [OSError, Exception, BaseException]"
| "superclasses IsADirectoryError = [OSError, Exception, BaseException]"
| "superclasses PermissionError = [OSError, Exception, BaseException]"
| "superclasses ValueError = [Exception, BaseException]"
| "superclasses DateParseError = [ValueError, Exception, BaseException]"
| "superclasses ParserError = [ValueError, Exception, BaseException]"
| "superclasses TypeError = [Exception, BaseException]"
| "superclasses ImportError = [Exception, BaseException]"

datatype pyexc = PyExc (exc_cls: exc_class) (exc_msg: string)

definition isinstance :: "pyexc \<Rightarrow> exc_class \<Rightarrow> bool" where
  "isinstance e c = (c \<in> set (exc_cls e # superclasses (exc_cls e)))"

section \<open>Values, tables and documents\<close>

text \<open>A \<^verbatim>\<open>pandas.Timestamp\<close>, reduced to the calendar date, the only part that the
  format \<^verbatim>\<open>'%Y-%m-%d'\<close> reads.\<close>

datatype timestamp = Timestamp (year: nat) (month: nat) (day: nat)

text \<open>The scalars a loaded cell can hold. \<open>VNaN\<close> is the missing value
  (\<^verbatim>\<open>numpy.nan\<close>); \<open>VFloat\<close> carries the 64 bits of any other float; \<open>VTimestamp\<close> is
  a date cell of a spreadsheet, which \<^verbatim>\<open>json.dump\<close> cannot serialise. Strings are
  Latin-1 text, one \<^typ>\<open>char\<close> per character, as \<^verbatim>\<open>encoding='latin-1'\<close> decodes them.\<close>

datatype pyvalue =
    VStr string
  | VInt int
  | VFloat "64 word"
  | VBool bool
  | VNaN
  | VTimestamp timestamp

text \<open>A \<^verbatim>\<open>DataFrame\<close>: the column labels and the rows, each row a list of cells in
  the order of the labels.\<close>

record dataframe =
  columns :: "string list"
  rows :: "pyvalue list list"

definition wf_df :: "dataframe \<Rightarrow> bool" where
  "wf_df df = (distinct (columns df) \<and> list_all (\<lambda>r. length r = length (columns df)) (rows df))"

text \<open>The dictionary \<^verbatim>\<open>metadata\<close> and the dictionary \<^verbatim>\<open>json_final\<close> of the script. A row
  of \<^verbatim>\<open>datos\<close> is a Python dict, kept as an association list in column order.\<close>

record metadata =
  fuente_original :: string
  fecha_conversion :: string
  registros_procesados :: nat

record json_final =
  metadata :: metadata
  datos :: "(string \<times> pyvalue) list list"

section \<open>The file system\<close>

text \<open>What a path holds: the bytes of some file, the text that \<^verbatim>\<open>json.dump\<close> wrote for
  a document (represented by the document), or the beginning of such a text, left
  behind when \<^verbatim>\<open>json.dump\<close> raised in the middle of writing.\<close>

datatype file_content =
    Raw string
  | JsonText json_final
  | Truncated

text \<open>Why \<^verbatim>\<open>open(path, 'w')\<close> fails at a path, and the \<^verbatim>\<open>OSError\<close> subclass that
  Python raises for it.\<close>

datatype open_failure = NoSuchDirectory | IsDirectory | NotPermitted

fun oserror_of :: "open_failure \<Rightarrow> exc_class" where
  "oserror_of NoSuchDirectory = FileNotFoundError"
| "oserror_of IsDirectory = IsADirectoryError"
| "oserror_of NotPermitted = PermissionError"

record filesystem =
  contents :: "string \<rightharpoonup> file_content"
  open_failure :: "string \<rightharpoonup> open_failure"

section \<open>The libraries the script calls\<close>

text \<open>
  \<^verbatim>\<open>os.path.splitext\<close>, the two parsers behind \<^verbatim>\<open>pandas.read_excel\<close> and
  \<^verbatim>\<open>pandas.read_csv\<close> (applied to the content of the file once it is found) and
  \<^verbatim>\<open>pandas.to_datetime\<close> (applied to a whole column; \<open>None\<close> is \<^verbatim>\<open>NaT\<close>) are not code
  of this repository. The script is modelled for any such functions; each may raise
  any exception.
\<close>

record library =
  splitext :: "string \<Rightarrow> string \<times> string"
  read_excel :: "file_content \<Rightarrow> pyexc + dataframe"
  read_csv :: "file_content \<Rightarrow> pyexc + dataframe"
  to_datetime :: "pyvalue list \<Rightarrow> pyexc + timestamp option list"

text \<open>A pandas reader on a path: the file must exist, then its content is parsed.\<close>

definition pd_read ::
  "(file_content \<Rightarrow> pyexc + dataframe) \<Rightarrow> filesystem \<Rightarrow> string \<Rightarrow> pyexc + dataframe" where
  "pd_read parser fs path =
     (case contents fs path of
        None \<Rightarrow> Inl (PyExc FileNotFoundError path)
      | Some c \<Rightarrow> parser c)"

section \<open>The operations on a table\<close>

fun index_of :: "string list \<Rightarrow> string \<Rightarrow> nat" where
  "index_of [] c = 0"
| "index_of (x # xs) c = (if x = c then 0 else Suc (index_of xs c))"

definition cell :: "pyvalue list \<Rightarrow> nat \<Rightarrow> pyvalue" where
  "cell r i = (if i < length r then r ! i else VNaN)"

text \<open>\<^verbatim>\<open>df[c]\<close>: the column as a list, one value per row.\<close>

definition getitem :: "dataframe \<Rightarrow> string \<Rightarrow> pyvalue list" where
  "getitem df c = map (\<lambda>r. cell r (index_of (columns df) c)) (rows df)"

text \<open>\<^verbatim>\<open>.dt.strftime('%Y-%m-%d')\<close>: four digits of the year, two of the month, two of the
  day; \<^verbatim>\<open>NaT\<close> becomes \<^verbatim>\<open>NaN\<close>. The years of a \<^verbatim>\<open>Timestamp\<close> have four digits (1677 to
  2262 at nanosecond resolution).\<close>

definition digit :: "nat \<Rightarrow> char" where
  "digit n = ''0123456789'' ! (n mod 10)"

definition strftime_Ymd :: "timestamp \<Rightarrow> string" where
  "strftime_Ymd t =
     [digit (year t div 1000), digit (year t div 100), digit (year t div 10), digit (year t),
      CHR ''-'', digit (month t div 10), digit (month t),
      CHR ''-'', digit (day t div 10), digit (day t)]"

definition dt_strftime :: "timestamp option list \<Rightarrow> pyvalue list" where
  "dt_strftime ts = map (\<lambda>t. case t of None \<Rightarrow> VNaN | Some d \<Rightarrow> VStr (strftime_Ymd d)) ts"

text \<open>\<^verbatim>\<open>df[c] = series\<close> for a column that exists: the series is aligned with the rows
  of the table, a row without a value in the series gets \<^verbatim>\<open>NaN\<close>, and values beyond the
  last row are dropped; no row is added or removed.\<close>

fun assign_cells :: "nat \<Rightarrow> pyvalue list \<Rightarrow> pyvalue list list \<Rightarrow> pyvalue list list" where
  "assign_cells i vs [] = []"
| "assign_cells i [] (r # rs) = r[i := VNaN] # assign_cells i [] rs"
| "assign_cells i (v # vs) (r # rs) = r[i := v] # assign_cells i vs rs"

definition setitem :: "dataframe \<Rightarrow> string \<Rightarrow> pyvalue list \<Rightarrow> dataframe" where
  "setitem df c vs = df\<lparr>rows := assign_cells (index_of (columns df) c) vs (rows df)\<rparr>"

text \<open>\<^verbatim>\<open>df.to_dict(orient='records')\<close>: one dict per row, keyed by the column labels.\<close>

definition to_dict_records :: "dataframe \<Rightarrow> (string \<times> pyvalue) list list" where
  "to_dict_records df = map (\<lambda>r. zip (columns df) r) (rows df)"

section \<open>The script\<close>

text \<open>What a run shows to the outside: the lines it prints and the calls that touch
  the file system, in order.\<close>

datatype mensaje =
    MsgInicio string
  | MsgExito string
  | MsgNoEncontrado string
  | MsgFormato string
  | MsgInesperado string
  | MsgTraceback pyexc

datatype evento =
    Print mensaje
  | ReadExcel string
  | ReadCsv string
  | OpenWrite string

text \<open>Lines 23 to 36: the extension selects the reader; any other extension raises the
  script's own \<^verbatim>\<open>ValueError\<close>, before any file is touched.\<close>

definition cargar :: "library \<Rightarrow> filesystem \<Rightarrow> string \<Rightarrow> evento list \<times> (pyexc + dataframe)" where
  "cargar lib fs archivo_entrada =
     (let (nombre, extension) = splitext lib archivo_entrada in
      if extension = ''.xlsx'' then
        ([ReadExcel archivo_entrada], pd_read (read_excel lib) fs archivo_entrada)
      else if extension = ''.csv'' then
        ([ReadCsv archivo_entrada], pd_read (read_csv lib) fs archivo_entrada)
      else
        ([], Inl (PyExc ValueError ''Formato de archivo no soportado. Use .xlsx o .csv'')))"

text \<open>Lines 39 to 42: the column \<^verbatim>\<open>Fecha_Compra\<close>, when present, is parsed as dates and
  replaced by their text.\<close>

definition normalizar :: "library \<Rightarrow> dataframe \<Rightarrow> pyexc + dataframe" where
  "normalizar lib df =
     (if ''Fecha_Compra'' \<in> set (columns df) then
        (case to_datetime lib (getitem df ''Fecha_Compra'') of
           Inl e \<Rightarrow> Inl e
         | Inr ts \<Rightarrow> Inr (setitem df ''Fecha_Compra'' (dt_strftime ts)))
      else Inr df)"

text \<open>Lines 46 to 59: the records, the metadata with the clock reading \<open>ahora\<close>
  (\<^verbatim>\<open>datetime.datetime.now().isoformat()\<close>) and the final dictionary.\<close>

definition ensamblar :: "string \<Rightarrow> string \<Rightarrow> dataframe \<Rightarrow> json_final" where
  "ensamblar ahora archivo_entrada df =
     (let datos_extraidos = to_dict_records df in
      \<lparr>metadata =
         \<lparr>fuente_original = archivo_entrada,
          fecha_conversion = ahora,
          registros_procesados = length datos_extraidos\<rparr>,
       datos = datos_extraidos\<rparr>)"

text \<open>Lines 63 to 67: \<^verbatim>\<open>open(archivo_salida, 'w')\<close> creates or empties the file unless it
  fails; \<^verbatim>\<open>json.dump\<close> then writes the document, and raises \<^verbatim>\<open>TypeError\<close> part-way
  through when it meets a value it cannot serialise.\<close>

definition json_serializable :: "pyvalue \<Rightarrow> bool" where
  "json_serializable v = (case v of VTimestamp t \<Rightarrow> False | _ \<Rightarrow> True)"

definition doc_serializable :: "json_final \<Rightarrow> bool" where
  "doc_serializable doc = list_all (\<lambda>row. list_all (\<lambda>kv. json_serializable (snd kv)) row) (datos doc)"

definition escribir :: "filesystem \<Rightarrow> string \<Rightarrow> json_final \<Rightarrow> filesystem \<times> pyexc option" where
  "escribir fs archivo_salida doc =
     (case open_failure fs archivo_salida of
        Some why \<Rightarrow> (fs, Some (PyExc (oserror_of why) archivo_salida))
      | None \<Rightarrow>
          if doc_serializable doc then
            (fs\<lparr>contents := (contents fs)(archivo_salida \<mapsto> JsonText doc)\<rparr>, None)
          else
            (fs\<lparr>contents := (contents fs)(archivo_salida \<mapsto> Truncated)\<rparr>,
             Some (PyExc TypeError ''Object of type Timestamp is not JSON serializable'')))"

text \<open>The body of the \<^verbatim>\<open>try\<close> statement, lines 21 to 70: the events, the file system
  it leaves, and the exception that ended it, if any.\<close>

definition try_body ::
  "library \<Rightarrow> string \<Rightarrow> string \<Rightarrow> string \<Rightarrow> filesystem
     \<Rightarrow> evento list \<times> filesystem \<times> pyexc option" where
  "try_body lib ahora archivo_entrada archivo_salida fs =
     (case cargar lib fs archivo_entrada of
        (evs, Inl e) \<Rightarrow> (evs, fs, Some e)
      | (evs, Inr df) \<Rightarrow>
          (case normalizar lib df of
             Inl e \<Rightarrow> (evs, fs, Some e)
           | Inr df' \<Rightarrow>
               (case escribir fs archivo_salida (ensamblar ahora archivo_entrada df') of
                  (fs', Some e) \<Rightarrow> (evs @ [OpenWrite archivo_salida], fs', Some e)
                | (fs', None) \<Rightarrow>
                    (evs @ [OpenWrite archivo_salida, Print (MsgExito archivo_salida)],
                     fs', None))))"

text \<open>Lines 75 to 83: the first handler whose class the exception is an instance of
  prints its line. An exception that is no \<^verbatim>\<open>Exception\<close> leaves the script: the
  interpreter prints the traceback and the process fails.\<close>

datatype outcome = Success | InputNotFound | FormatError | UnexpectedError | Uncaught

definition manejar :: "string \<Rightarrow> pyexc \<Rightarrow> mensaje \<times> outcome" where
  "manejar archivo_entrada e =
     (if isinstance e FileNotFoundError then (MsgNoEncontrado archivo_entrada, InputNotFound)
      else if isinstance e ValueError then (MsgFormato (exc_msg e), FormatError)
      else if isinstance e Exception then (MsgInesperado (exc_msg e), UnexpectedError)
      else (MsgTraceback e, Uncaught))"

text \<open>The exit status of the process: the interpreter exits with status 0 when the
  script reaches its end, which it does after the \<^verbatim>\<open>try\<close> body and after each handler
  (none of them re-raises or calls \<^verbatim>\<open>sys.exit\<close>), and with a failure status when an
  exception leaves the script.\<close>

datatype exit_status = ExitSuccess | ExitFailure

record resultado =
  eventos :: "evento list"
  fs_final :: filesystem
  outcome :: outcome
  status :: exit_status

text \<open>The whole script. Lines 11 and 13 fix the two paths (\<^verbatim>\<open>'datos_prueba.csv'\<close> and
  \<^verbatim>\<open>'salida.json'\<close>) as constants meant to be edited; here they are arguments, with the
  clock reading and the file system the run starts from. Line 17 prints the start line
  before the \<^verbatim>\<open>try\<close> statement.\<close>

definition convertidor ::
  "library \<Rightarrow> string \<Rightarrow> string \<Rightarrow> string \<Rightarrow> filesystem \<Rightarrow> resultado" where
  "convertidor lib ahora archivo_entrada archivo_salida fs =
     (case try_body lib ahora archivo_entrada archivo_salida fs of
        (evs, fs', None) \<Rightarrow>
          \<lparr>eventos = Print (MsgInicio archivo_entrada) # evs,
           fs_final = fs', outcome = Success, status = ExitSuccess\<rparr>
      | (evs, fs', Some e) \<Rightarrow>
          (let (linea, oc) = manejar archivo_entrada e in
           \<lparr>eventos = Print (MsgInicio archivo_entrada) # evs @ [Print linea],
            fs_final = fs', outcome = oc,
            status = (if oc = Uncaught then ExitFailure else ExitSuccess)\<rparr>))"

text \<open>Two readings of a result: the calls of a reader among the events, and the
  document that a path holds.\<close>

fun is_read :: "evento \<Rightarrow> bool" where
  "is_read (ReadExcel p) = True"
| "is_read (ReadCsv p) = True"
| "is_read (Print m) = False"
| "is_read (OpenWrite p) = False"

fun touches_files :: "evento \<Rightarrow> bool" where
  "touches_files (Print m) = False"
| "touches_files (ReadExcel p) = True"
| "touches_files (ReadCsv p) = True"
| "touches_files (OpenWrite p) = True"

definition written :: "filesystem \<Rightarrow> string \<Rightarrow> json_final option" where
  "written fs path = (case contents fs path of Some (JsonText doc) \<Rightarrow> Some doc | _ \<Rightarrow> None)"

text \<open>The canonical form \<^verbatim>\<open>YYYY-MM-DD\<close>: ten characters, digits around two hyphens.\<close>

definition is_digit :: "char \<Rightarrow> bool" where
  "is_digit c = (48 \<le> (of_char c :: nat) \<and> (of_char c :: nat) \<le> 57)"

definition is_Ymd :: "string \<Rightarrow> bool" where
  "is_Ymd s =
     (length s = 10 \<and> list_all is_digit (take 4 s) \<and> s ! 4 = CHR ''-''
      \<and> list_all is_digit (take 2 (drop 5 s)) \<and> s ! 7 = CHR ''-''
      \<and> list_all is_digit (drop 8 s))"

definition fecha_canonica :: "(string \<times> pyvalue) list \<Rightarrow> bool" where
  "fecha_canonica row =
     (case map_of row ''Fecha_Compra'' of Some (VStr s) \<Rightarrow> is_Ymd s | _ \<Rightarrow> False)"

section \<open>A concrete library and file system\<close>

text \<open>
  To run the script on concrete files, the library record is filled with small
  stand-ins. \<open>posix_splitext\<close> follows \<^verbatim>\<open>posixpath.splitext\<close>: the extension starts at
  the last dot of the last path component, unless only dots precede it there.
  \<open>demo_read_csv\<close> splits lines and commas, reads an empty field as \<^verbatim>\<open>NaN\<close> and a field
  of digits as an integer; \<open>demo_to_datetime\<close> reads \<^verbatim>\<open>MM/DD/YYYY\<close> and \<^verbatim>\<open>YYYY-MM-DD\<close>,
  keeps \<^verbatim>\<open>NaN\<close> as \<^verbatim>\<open>NaT\<close>, and raises the \<^verbatim>\<open>ValueError\<close> subclass of pandas on any other
  text. They agree with pandas on the files below, which is all they are used for.
\<close>

definition rfind :: "string \<Rightarrow> char \<Rightarrow> int" where
  "rfind p c =
     (if c \<in> set p
      then int (length p) - 1 - int (length (takeWhile (\<lambda>x. x \<noteq> c) (rev p)))
      else - 1)"

definition posix_splitext :: "string \<Rightarrow> string \<times> string" where
  "posix_splitext p =
     (let sepIndex = rfind p CHR ''/''; dotIndex = rfind p CHR ''.'' in
      if dotIndex > sepIndex \<and>
         list_ex (\<lambda>k. p ! k \<noteq> CHR ''.'') [nat (sepIndex + 1)..<nat dotIndex]
      then (take (nat dotIndex) p, drop (nat dotIndex) p)
      else (p, []))"

fun split_on :: "char \<Rightarrow> string \<Rightarrow> string list" where
  "split_on c [] = [[]]"
| "split_on c (x # xs) =
     (if x = c then [] # split_on c xs
      else (case split_on c xs of [] \<Rightarrow> [[x]] | w # ws \<Rightarrow> (x # w) # ws))"

definition number :: "string \<Rightarrow> nat option" where
  "number s =
     (if s \<noteq> [] \<and> list_all is_digit s
      then Some (foldl (\<lambda>n c. 10 * n + (of_char c - 48)) 0 s) else None)"

definition parse_cell :: "string \<Rightarrow> pyvalue" where
  "parse_cell s =
     (if s = [] then VNaN
      else case number s of Some n \<Rightarrow> VInt (int n) | None \<Rightarrow> VStr s)"

definition pad_row :: "nat \<Rightarrow> pyvalue list \<Rightarrow> pyvalue list" where
  "pad_row n r = r @ replicate (n - length r) VNaN"

definition demo_read_csv :: "file_content \<Rightarrow> pyexc + dataframe" where
  "demo_read_csv c =
     (case c of
        Raw s \<Rightarrow>
          (case filter (\<lambda>l. l \<noteq> []) (split_on (CHR 0x0A) s) of
             [] \<Rightarrow> Inl (PyExc ParserError ''No columns to parse from file'')
           | h # ls \<Rightarrow>
               (let cols = split_on CHR '','' h;
                    rs = map (\<lambda>l. map parse_cell (split_on CHR '','' l)) ls in
                if list_ex (\<lambda>r. length cols < length r) rs
                then Inl (PyExc ParserError ''Error tokenizing data'')
                else Inr \<lparr>columns = cols, rows = map (pad_row (length cols)) rs\<rparr>))
      | _ \<Rightarrow> Inl (PyExc ParserError ''Error tokenizing data''))"

definition demo_read_excel :: "file_content \<Rightarrow> pyexc + dataframe" where
  "demo_read_excel c =
     Inl (PyExc ValueError
       ''Excel file format cannot be determined, you must specify an engine manually.'')"

definition make_date :: "nat option \<Rightarrow> nat option \<Rightarrow> nat option \<Rightarrow> timestamp option" where
  "make_date y m d =
     (case (y, m, d) of
        (Some y', Some m', Some d') \<Rightarrow>
          if 1 \<le> m' \<and> m' \<le> 12 \<and> 1 \<le> d' \<and> d' \<le> 31
          then Some (Timestamp y' m' d') else None
      | _ \<Rightarrow> None)"

definition parse_date :: "string \<Rightarrow> timestamp option" where
  "parse_date s =
     (if length s = 10 \<and> s ! 2 = CHR ''/'' \<and> s ! 5 = CHR ''/''
      then make_date (number (drop 6 s)) (number (take 2 s)) (number (take 2 (drop 3 s)))
      else if length s = 10 \<and> s ! 4 = CHR ''-'' \<and> s ! 7 = CHR ''-''
      then make_date (number (take 4 s)) (number (take 2 (drop 5 s))) (number (drop 8 s))
      else None)"

definition to_datetime1 :: "pyvalue \<Rightarrow> pyexc + timestamp option" where
  "to_datetime1 v =
     (case v of
        VNaN \<Rightarrow> Inr None
      | VTimestamp t \<Rightarrow> Inr (Some t)
      | VStr s \<Rightarrow>
          (case parse_date s of
             Some t \<Rightarrow> Inr (Some t)
           | None \<Rightarrow>
               Inl (PyExc DateParseError
                 (''Unknown datetime string format, unable to parse: '' @ s)))
      | _ \<Rightarrow> Inl (PyExc TypeError ''value is not convertible to datetime''))"

fun demo_to_datetime :: "pyvalue list \<Rightarrow> pyexc + timestamp option list" where
  "demo_to_datetime [] = Inr []"
| "demo_to_datetime (v # vs) =
     (case to_datetime1 v of
        Inl e \<Rightarrow> Inl e
      | Inr t \<Rightarrow> (case demo_to_datetime vs of Inl e \<Rightarrow> Inl e | Inr ts \<Rightarrow> Inr (t # ts)))"

definition demo_lib :: library where
  "demo_lib =
     \<lparr>splitext = posix_splitext, read_excel = demo_read_excel,
      read_csv = demo_read_csv, to_datetime = demo_to_datetime\<rparr>"

text \<open>Three small CSV files: two sales with dates, a date that is no date, and a
  missing date; and a document left by an earlier run.\<close>

definition csv_ventas :: string where
  "csv_ventas =
     ''Cliente,Fecha_Compra,Monto'' @ [CHR 0x0A] @ ''Ana,03/15/2024,120'' @ [CHR 0x0A]
       @ ''Luis,12/01/2023,80'' @ [CHR 0x0A]"

definition csv_fecha_mala :: string where
  "csv_fecha_mala = ''Cliente,Fecha_Compra'' @ [CHR 0x0A] @ ''Ana,no-es-fecha'' @ [CHR 0x0A]"

definition csv_fecha_vacia :: string where
  "csv_fecha_vacia = ''Cliente,Fecha_Compra'' @ [CHR 0x0A] @ ''Ana,'' @ [CHR 0x0A]"

definition df_ventas :: dataframe where
  "df_ventas =
     \<lparr>columns = [''Cliente'', ''Fecha_Compra'', ''Monto''],
      rows = [[VStr ''Ana'', VStr ''03/15/2024'', VInt 120],
              [VStr ''Luis'', VStr ''12/01/2023'', VInt 80]]\<rparr>"

definition df_fecha_mala :: dataframe where
  "df_fecha_mala =
     \<lparr>columns = [''Cliente'', ''Fecha_Compra''], rows = [[VStr ''Ana'', VStr ''no-es-fecha'']]\<rparr>"

definition df_fecha_vacia :: dataframe where
  "df_fecha_vacia = \<lparr>columns = [''Cliente'', ''Fecha_Compra''], rows = [[VStr ''Ana'', VNaN]]\<rparr>"

definition doc_anterior :: json_final where
  "doc_anterior =
     \<lparr>metadata =
        \<lparr>fuente_original = ''viejo.csv'', fecha_conversion = ''2024-01-01T08:00:00'',
         registros_procesados = 1\<rparr>,
      datos = [[(''Cliente'', VStr ''Eva'')]]\<rparr>"

definition demo_fs :: filesystem where
  "demo_fs =
     \<lparr>contents =
        [''datos_prueba.csv'' \<mapsto> Raw csv_ventas,
         ''fecha_mala.csv'' \<mapsto> Raw csv_fecha_mala,
         ''fecha_vacia.csv'' \<mapsto> Raw csv_fecha_vacia,
         ''salida.json'' \<mapsto> JsonText doc_anterior],
      open_failure = [''sin_carpeta/salida.json'' \<mapsto> NoSuchDirectory]\<rparr>"

text \<open>The table of the sales after normalisation, two clock readings, and the document
  of the file with the missing date.\<close>

definition df_ventas_norm :: dataframe where
  "df_ventas_norm =
     \<lparr>columns = [''Cliente'', ''Fecha_Compra'', ''Monto''],
          rows = [[VStr ''Ana'', VStr ''2024-03-15'', VInt 120],
                  [VStr ''Luis'', VStr ''2023-12-01'', VInt 80]]\<rparr>"

definition ahora1 :: string where "ahora1 = ''2026-11-04T10:00:00.000000''"

definition ahora2 :: string where "ahora2 = ''2026-11-04T10:05:00.000000''"

definition doc_fecha_vacia :: json_final where
  "doc_fecha_vacia =
     \<lparr>metadata =
        \<lparr>fuente_original = ''fecha_vacia.csv'', fecha_conversion = ahora1,
         registros_procesados = 1\<rparr>,
      datos = [[(''Cliente'', VStr ''Ana''), (''Fecha_Compra'', VNaN)]]\<rparr>"

section \<open>Auxiliary facts\<close>

lemma length_assign_cells: "length (assign_cells i vs rs) = length rs"
  by (induction i vs rs rule: assign_cells.induct) simp_all

lemma normalizar_shape:
  "normalizar lib df = Inr df' \<Longrightarrow> columns df' = columns df \<and> length (rows df') = length (rows df)"
  by (auto simp: normalizar_def setitem_def length_assign_cells split: if_splits sum.splits)

lemma ensamblar_count:
  "registros_procesados (metadata (ensamblar ahora inp df)) = length (rows df)
   \<and> length (datos (ensamblar ahora inp df)) = length (rows df)"
  by (simp add: ensamblar_def to_dict_records_def)

lemma manejar_outcome:
  "snd (manejar inp e) =
     (if isinstance e FileNotFoundError then InputNotFound
      else if isinstance e ValueError then FormatError
      else if isinstance e Exception then UnexpectedError else Uncaught)"
  by (simp add: manejar_def)

lemma manejar_not_success: "snd (manejar inp e) \<noteq> Success"
  by (simp add: manejar_def)

lemma outcome_convertidor:
  "outcome (convertidor lib ahora inp out fs) =
     (case snd (snd (try_body lib ahora inp out fs)) of
        None \<Rightarrow> Success | Some e \<Rightarrow> snd (manejar inp e))"
  by (simp add: convertidor_def split: prod.splits option.splits)

lemma fs_final_convertidor:
  "fs_final (convertidor lib ahora inp out fs) = fst (snd (try_body lib ahora inp out fs))"
  by (simp add: convertidor_def split: prod.splits option.splits)

lemma status_convertidor:
  "status (convertidor lib ahora inp out fs) =
     (if outcome (convertidor lib ahora inp out fs) = Uncaught then ExitFailure else ExitSuccess)"
  by (simp add: convertidor_def split: prod.splits option.splits)

lemma eventos_convertidor:
  "eventos (convertidor lib ahora inp out fs) =
     (case try_body lib ahora inp out fs of
        (evs, fs', None) \<Rightarrow> Print (MsgInicio inp) # evs
      | (evs, fs', Some e) \<Rightarrow> Print (MsgInicio inp) # evs @ [Print (fst (manejar inp e))])"
  by (simp add: convertidor_def split: prod.splits option.splits)

lemma cargar_eventos:
  "fst (cargar lib fs inp) =
     (if snd (splitext lib inp) = ''.xlsx'' then [ReadExcel inp]
      else if snd (splitext lib inp) = ''.csv'' then [ReadCsv inp] else [])"
  by (simp add: cargar_def split: prod.splits)

lemma cargar_result:
  "snd (cargar lib fs inp) =
     (if snd (splitext lib inp) = ''.xlsx'' then pd_read (read_excel lib) fs inp
      else if snd (splitext lib inp) = ''.csv'' then pd_read (read_csv lib) fs inp
      else Inl (PyExc ValueError ''Formato de archivo no soportado. Use .xlsx o .csv''))"
  by (simp add: cargar_def split: prod.splits)

lemma escribir_cases:
  "escribir fs out doc =
     (case open_failure fs out of
        Some why \<Rightarrow> (fs, Some (PyExc (oserror_of why) out))
      | None \<Rightarrow>
          if doc_serializable doc then
            (fs\<lparr>contents := (contents fs)(out \<mapsto> JsonText doc)\<rparr>, None)
          else
            (fs\<lparr>contents := (contents fs)(out \<mapsto> Truncated)\<rparr>,
             Some (PyExc TypeError ''Object of type Timestamp is not JSON serializable'')))"
  by (simp add: escribir_def)

lemma try_body_load_error:
  "snd (cargar lib fs inp) = Inl e \<Longrightarrow>
   try_body lib ahora inp out fs = (fst (cargar lib fs inp), fs, Some e)"
  by (cases "cargar lib fs inp") (simp add: try_body_def)

lemma try_body_normalize_error:
  "snd (cargar lib fs inp) = Inr df \<Longrightarrow> normalizar lib df = Inl e \<Longrightarrow>
   try_body lib ahora inp out fs = (fst (cargar lib fs inp), fs, Some e)"
  by (cases "cargar lib fs inp") (simp add: try_body_def)

lemma try_body_write:
  "snd (cargar lib fs inp) = Inr df \<Longrightarrow> normalizar lib df = Inr df' \<Longrightarrow>
   try_body lib ahora inp out fs =
     (case escribir fs out (ensamblar ahora inp df') of
        (fs', Some e) \<Rightarrow> (fst (cargar lib fs inp) @ [OpenWrite out], fs', Some e)
      | (fs', None) \<Rightarrow>
          (fst (cargar lib fs inp) @ [OpenWrite out, Print (MsgExito out)], fs', None))"
  by (cases "cargar lib fs inp") (simp add: try_body_def)

lemma try_body_fs:
  "fst (snd (try_body lib ahora inp out fs)) = fs
   \<or> snd (snd (try_body lib ahora inp out fs)) = None
   \<or> snd (snd (try_body lib ahora inp out fs))
        = Some (PyExc TypeError ''Object of type Timestamp is not JSON serializable'')"
  by (simp add: try_body_def escribir_def split: prod.splits sum.splits option.splits)

lemma try_body_prints:
  "Print m \<in> set (fst (try_body lib ahora inp out fs)) \<Longrightarrow>
   snd (snd (try_body lib ahora inp out fs)) = None"
  by (auto simp: try_body_def cargar_def escribir_def split: prod.splits sum.splits option.splits if_splits)

lemma index_of_less: "c \<in> set xs \<Longrightarrow> index_of xs c < length xs"
  by (induction xs) auto

lemma index_of_neq: "c \<in> set xs \<Longrightarrow> c \<noteq> d \<Longrightarrow> index_of xs c \<noteq> index_of xs d"
  by (induction xs) auto

lemma map_of_zip_index_of:
  "c \<in> set xs \<Longrightarrow> length xs \<le> length ys \<Longrightarrow> map_of (zip xs ys) c = Some (ys ! index_of xs c)"
proof (induction xs arbitrary: ys)
  case Nil
  then show ?case by simp
next
  case (Cons x xs)
  then obtain y ys' where ys: "ys = y # ys'" by (cases ys) auto
  with Cons show ?case by auto
qed

lemma nth_assign_cells:
  "k < length rs \<Longrightarrow>
   assign_cells i vs rs ! k = (rs ! k)[i := (if k < length vs then vs ! k else VNaN)]"
proof (induction i vs rs arbitrary: k rule: assign_cells.induct)
  case (1 i vs)
  then show ?case by simp
next
  case (2 i r rs)
  then show ?case by (cases k) simp_all
next
  case (3 i v vs r rs)
  then show ?case by (cases k) simp_all
qed

lemma wf_row_length: "wf_df df \<Longrightarrow> k < length (rows df) \<Longrightarrow> length (rows df ! k) = length (columns df)"
  by (simp add: wf_df_def list_all_length)

lemma nth_dt_strftime:
  "k < length ts \<Longrightarrow>
   dt_strftime ts ! k = (case ts ! k of None \<Rightarrow> VNaN | Some d \<Rightarrow> VStr (strftime_Ymd d))"
  by (simp add: dt_strftime_def)

lemma is_digit_digit: "is_digit (digit n)"
proof -
  have "list_all is_digit ''0123456789''" by (simp add: is_digit_def)
  moreover have "n mod 10 < length ''0123456789''" by simp
  ultimately show ?thesis unfolding digit_def list_all_length by blast
qed

lemma is_Ymd_strftime: "is_Ymd (strftime_Ymd t)"
  by (simp add: is_Ymd_def strftime_Ymd_def is_digit_digit)

lemma run_success:
  assumes "snd (cargar lib fs inp) = Inr df" and "normalizar lib df = Inr df'"
      and "open_failure fs out = None" and "doc_serializable (ensamblar ahora inp df')"
  shows "outcome (convertidor lib ahora inp out fs) = Success"
    and "fs_final (convertidor lib ahora inp out fs)
           = fs\<lparr>contents := (contents fs)(out \<mapsto> JsonText (ensamblar ahora inp df'))\<rparr>"
    and "eventos (convertidor lib ahora inp out fs)
           = Print (MsgInicio inp) # fst (cargar lib fs inp) @ [OpenWrite out, Print (MsgExito out)]"
  using assms
  by (simp_all add: outcome_convertidor fs_final_convertidor eventos_convertidor
        try_body_write escribir_cases)

lemma success_inversion:
  assumes "outcome (convertidor lib ahora inp out fs) = Success"
  shows "\<exists>df df'. snd (cargar lib fs inp) = Inr df \<and> normalizar lib df = Inr df'
           \<and> open_failure fs out = None \<and> doc_serializable (ensamblar ahora inp df')"
proof (cases "snd (cargar lib fs inp)")
  case (Inl e)
  with assms show ?thesis
    by (simp add: outcome_convertidor try_body_load_error manejar_not_success)
next
  case (Inr df)
  show ?thesis
  proof (cases "normalizar lib df")
    case (Inl e)
    with Inr assms show ?thesis
      by (simp add: outcome_convertidor try_body_normalize_error manejar_not_success)
  next
    case df': (Inr df')
    from Inr df' assms have "open_failure fs out = None \<and> doc_serializable (ensamblar ahora inp df')"
      by (auto simp: outcome_convertidor try_body_write escribir_cases manejar_not_success
            split: option.splits if_splits)
    with Inr df' show ?thesis by blast
  qed
qed

lemma written_update: "written (fs\<lparr>contents := (contents fs)(out \<mapsto> JsonText doc)\<rparr>) out = Some doc"
  by (simp add: written_def)

lemma normalizar_row:
  assumes "normalizar lib df = Inr df'" and "k < length (rows df)"
  shows "length (rows df' ! k) = length (rows df ! k)"
    and "j \<noteq> index_of (columns df) ''Fecha_Compra'' \<Longrightarrow> rows df' ! k ! j = rows df ! k ! j"
  using assms
  by (auto simp: normalizar_def setitem_def nth_assign_cells split: if_splits sum.splits)

lemma normalizar_fecha:
  assumes "normalizar lib df = Inr df'" and "''Fecha_Compra'' \<in> set (columns df)"
      and "to_datetime lib (getitem df ''Fecha_Compra'') = Inr ts"
      and "k < length (rows df)" and "wf_df df"
  shows "rows df' ! k ! index_of (columns df) ''Fecha_Compra''
           = (if k < length ts then (case ts ! k of None \<Rightarrow> VNaN | Some d \<Rightarrow> VStr (strftime_Ymd d))
              else VNaN)"
proof -
  have "index_of (columns df) ''Fecha_Compra'' < length (rows df ! k)"
    using assms by (simp add: wf_row_length index_of_less)
  then show ?thesis using assms
    by (auto simp: normalizar_def setitem_def nth_assign_cells nth_dt_strftime dt_strftime_def)
qed

lemma datos_lookup:
  assumes "normalizar lib df = Inr df'" and "wf_df df" and "k < length (rows df)"
      and "c \<in> set (columns df)"
  shows "map_of (datos (ensamblar ahora inp df') ! k) c = Some (rows df' ! k ! index_of (columns df) c)"
proof -
  from assms have sh: "columns df' = columns df" "length (rows df') = length (rows df)"
    using normalizar_shape by blast+
  have "length (rows df' ! k) = length (columns df)"
    using assms by (simp add: normalizar_row(1) wf_row_length)
  then show ?thesis using assms sh
    by (simp add: ensamblar_def to_dict_records_def map_of_zip_index_of)
qed

lemma strftime_ejemplo: "strftime_Ymd (Timestamp 2024 3 15) = ''2024-03-15''"
  by (simp add: strftime_Ymd_def digit_def)

lemma parse_date_0315: "parse_date ''03/15/2024'' = Some (Timestamp 2024 3 15)"
  by (simp add: parse_date_def make_date_def number_def is_digit_def)

lemma parse_date_1201: "parse_date ''12/01/2023'' = Some (Timestamp 2023 12 1)"
  by (simp add: parse_date_def make_date_def number_def is_digit_def)

lemma parse_date_mala: "parse_date ''no-es-fecha'' = None"
  by (simp add: parse_date_def)

lemma getitem_ventas: "getitem df_ventas ''Fecha_Compra'' = [VStr ''03/15/2024'', VStr ''12/01/2023'']"
  by (simp add: getitem_def df_ventas_def cell_def)

lemma to_datetime_ventas:
  "to_datetime demo_lib (getitem df_ventas ''Fecha_Compra'')
     = Inr [Some (Timestamp 2024 3 15), Some (Timestamp 2023 12 1)]"
  by (simp add: getitem_ventas demo_lib_def to_datetime1_def parse_date_0315 parse_date_1201)

lemma normalizar_ventas: "normalizar demo_lib df_ventas = Inr df_ventas_norm"
  by (simp add: normalizar_def to_datetime_ventas setitem_def dt_strftime_def strftime_Ymd_def digit_def)
     (simp add: df_ventas_def df_ventas_norm_def)

lemma normalizar_fecha_mala:
  "normalizar demo_lib df_fecha_mala =
     Inl (PyExc DateParseError ''Unknown datetime string format, unable to parse: no-es-fecha'')"
  by (simp add: normalizar_def df_fecha_mala_def getitem_def cell_def demo_lib_def to_datetime1_def parse_date_mala)

lemma normalizar_fecha_vacia: "normalizar demo_lib df_fecha_vacia = Inr df_fecha_vacia"
  by (simp add: normalizar_def df_fecha_vacia_def getitem_def cell_def demo_lib_def to_datetime1_def
        setitem_def dt_strftime_def)

lemma read_csv_ventas: "demo_read_csv (Raw csv_ventas) = Inr df_ventas"
  by (simp add: demo_read_csv_def csv_ventas_def parse_cell_def number_def is_digit_def pad_row_def df_ventas_def)

lemma read_csv_fecha_mala: "demo_read_csv (Raw csv_fecha_mala) = Inr df_fecha_mala"
  by (simp add: demo_read_csv_def csv_fecha_mala_def parse_cell_def number_def is_digit_def pad_row_def df_fecha_mala_def)

lemma read_csv_fecha_vacia: "demo_read_csv (Raw csv_fecha_vacia) = Inr df_fecha_vacia"
  by (simp add: demo_read_csv_def csv_fecha_vacia_def parse_cell_def number_def is_digit_def pad_row_def df_fecha_vacia_def)

lemma ext_csv:
  "snd (splitext demo_lib ''datos_prueba.csv'') = ''.csv''"
  "snd (splitext demo_lib ''fecha_mala.csv'') = ''.csv''"
  "snd (splitext demo_lib ''fecha_vacia.csv'') = ''.csv''"
  by (simp_all add: demo_lib_def posix_splitext_def rfind_def upt_conv_Cons)

lemma ext_otras:
  "snd (splitext demo_lib ''foo.txt'') = ''.txt''"
  "snd (splitext demo_lib ''no_existe.txt'') = ''.txt''"
  "snd (splitext demo_lib ''DATOS.CSV'') = ''.CSV''"
  "snd (splitext demo_lib ''datos'') = []"
  "snd (splitext demo_lib ''libro.xlsx'') = ''.xlsx''"
  by (simp_all add: demo_lib_def posix_splitext_def rfind_def upt_conv_Cons)

lemma wf_demo: "wf_df df_ventas" "wf_df df_fecha_mala" "wf_df df_fecha_vacia"
  by (simp_all add: wf_df_def df_ventas_def df_fecha_mala_def df_fecha_vacia_def)

lemma ext_no_existe_csv: "snd (splitext demo_lib ''no_existe.csv'') = ''.csv''"
  by (simp add: demo_lib_def posix_splitext_def rfind_def upt_conv_Cons)

lemma run_load_error:
  assumes "snd (cargar lib fs inp) = Inl e"
  shows "outcome (convertidor lib ahora inp out fs) = snd (manejar inp e)"
    and "fs_final (convertidor lib ahora inp out fs) = fs"
    and "eventos (convertidor lib ahora inp out fs)
           = Print (MsgInicio inp) # fst (cargar lib fs inp) @ [Print (fst (manejar inp e))]"
  using assms
  by (simp_all add: outcome_convertidor fs_final_convertidor eventos_convertidor try_body_load_error)

lemma run_normalize_error:
  assumes "snd (cargar lib fs inp) = Inr df" and "normalizar lib df = Inl e"
  shows "outcome (convertidor lib ahora inp out fs) = snd (manejar inp e)"
    and "fs_final (convertidor lib ahora inp out fs) = fs"
    and "eventos (convertidor lib ahora inp out fs)
           = Print (MsgInicio inp) # fst (cargar lib fs inp) @ [Print (fst (manejar inp e))]"
  using assms
  by (simp_all add: outcome_convertidor fs_final_convertidor eventos_convertidor
        try_body_normalize_error)

lemma run_open_failure:
  assumes "snd (cargar lib fs inp) = Inr df" and "normalizar lib df = Inr df'"
      and "open_failure fs out = Some why"
  shows "outcome (convertidor lib ahora inp out fs) = snd (manejar inp (PyExc (oserror_of why) out))"
    and "fs_final (convertidor lib ahora inp out fs) = fs"
    and "eventos (convertidor lib ahora inp out fs)
           = Print (MsgInicio inp) # fst (cargar lib fs inp)
               @ [OpenWrite out, Print (fst (manejar inp (PyExc (oserror_of why) out)))]"
  using assms
  by (simp_all add: outcome_convertidor fs_final_convertidor eventos_convertidor
        try_body_write escribir_cases)

lemma run_unsupported:
  assumes "snd (splitext lib inp) \<noteq> ''.xlsx''" and "snd (splitext lib inp) \<noteq> ''.csv''"
  shows "outcome (convertidor lib ahora inp out fs) = FormatError"
    and "fs_final (convertidor lib ahora inp out fs) = fs"
    and "eventos (convertidor lib ahora inp out fs)
           = [Print (MsgInicio inp),
              Print (MsgFormato ''Formato de archivo no soportado. Use .xlsx o .csv'')]"
proof -
  have l: "snd (cargar lib fs inp)
             = Inl (PyExc ValueError ''Formato de archivo no soportado. Use .xlsx o .csv'')"
    and e: "fst (cargar lib fs inp) = []"
    using assms by (simp_all add: cargar_result cargar_eventos)
  show "outcome (convertidor lib ahora inp out fs) = FormatError"
    by (simp add: run_load_error(1) [OF l] manejar_def isinstance_def)
  show "fs_final (convertidor lib ahora inp out fs) = fs"
    by (rule run_load_error(2) [OF l])
  show "eventos (convertidor lib ahora inp out fs)
           = [Print (MsgInicio inp),
              Print (MsgFormato ''Formato de archivo no soportado. Use .xlsx o .csv'')]"
    by (simp add: run_load_error(3) [OF l] e manejar_def isinstance_def)
qed

lemma eventos_reads:
  "filter is_read (eventos (convertidor lib ahora inp out fs)) = fst (cargar lib fs inp)"
proof -
  have "filter is_read (fst (cargar lib fs inp)) = fst (cargar lib fs inp)"
    by (simp add: cargar_eventos)
  then show ?thesis
    by (cases "cargar lib fs inp")
       (auto simp: convertidor_def try_body_def split: sum.splits prod.splits option.splits)
qed

lemma cargar_same_file:
  "contents fs' inp = contents fs inp \<Longrightarrow> snd (cargar lib fs' inp) = snd (cargar lib fs inp)"
  by (simp add: cargar_result pd_read_def)

lemma input_not_found_recognized:
  assumes "outcome (convertidor lib ahora inp out fs) = InputNotFound"
  shows "snd (splitext lib inp) = ''.xlsx'' \<or> snd (splitext lib inp) = ''.csv''"
proof (rule ccontr)
  assume "\<not> ?thesis"
  then have "outcome (convertidor lib ahora inp out fs) = FormatError"
    using run_unsupported(1) by simp
  with assms show False by simp
qed

lemma demo_lib_fields:
  "read_csv demo_lib = demo_read_csv" "read_excel demo_lib = demo_read_excel"
  "to_datetime demo_lib = demo_to_datetime"
  by (simp_all add: demo_lib_def)

lemma cargar_demo:
  "snd (cargar demo_lib demo_fs ''datos_prueba.csv'') = Inr df_ventas"
  "snd (cargar demo_lib demo_fs ''fecha_mala.csv'') = Inr df_fecha_mala"
  "snd (cargar demo_lib demo_fs ''fecha_vacia.csv'') = Inr df_fecha_vacia"
  "snd (cargar demo_lib demo_fs ''no_existe.csv'') = Inl (PyExc FileNotFoundError ''no_existe.csv'')"
  by (simp_all add: cargar_result ext_csv ext_no_existe_csv pd_read_def demo_lib_fields demo_fs_def
        read_csv_ventas read_csv_fecha_mala read_csv_fecha_vacia)

lemma cargar_demo_eventos:
  "fst (cargar demo_lib demo_fs ''datos_prueba.csv'') = [ReadCsv ''datos_prueba.csv'']"
  "fst (cargar demo_lib demo_fs ''fecha_mala.csv'') = [ReadCsv ''fecha_mala.csv'']"
  "fst (cargar demo_lib demo_fs ''no_existe.csv'') = [ReadCsv ''no_existe.csv'']"
  by (simp_all add: cargar_eventos ext_csv ext_no_existe_csv)

lemma open_demo:
  "open_failure demo_fs ''salida.json'' = None"
  "open_failure demo_fs ''sin_carpeta/salida.json'' = Some NoSuchDirectory"
  by (simp_all add: demo_fs_def)

lemma serializable_ventas: "doc_serializable (ensamblar t inp df_ventas_norm)"
  by (simp add: doc_serializable_def ensamblar_def Let_def to_dict_records_def df_ventas_norm_def
        json_serializable_def)

lemma ensamblar_fecha_vacia: "ensamblar ahora1 ''fecha_vacia.csv'' df_fecha_vacia = doc_fecha_vacia"
  by (simp add: ensamblar_def Let_def to_dict_records_def df_fecha_vacia_def doc_fecha_vacia_def)

lemma serializable_fecha_vacia: "doc_serializable doc_fecha_vacia"
  by (simp add: doc_serializable_def doc_fecha_vacia_def json_serializable_def)

lemma run_ventas_success:
  "outcome (convertidor demo_lib t ''datos_prueba.csv'' ''salida.json'' demo_fs) = Success"
  by (rule run_success(1) [OF cargar_demo(1) normalizar_ventas open_demo(1) serializable_ventas])

section \<open>The claims of the specification\<close>

subsection \<open>C1: a failure is printed, and the process still ends with status 0\<close>

text \<open>
  Claim C1 says that a run ending in InputNotFound, FormatError or UnexpectedError is
  caught at the top level, reported only as a console line, and that the process
  nevertheless ends with a failure status. The first part holds; the second does not:
  each handler only prints, the script then reaches its end, and the interpreter exits
  with status 0. The script has no \<^verbatim>\<open>sys.exit\<close> and no re-raise anywhere.

  Claim C1 as amended: for every run with one of the three failure outcomes, the events
  are the start line, the events of the \<^verbatim>\<open>try\<close> body (none of them a print), and one
  final printed line, which is one of the three categorised messages and no traceback;
  and the exit status of the process is success.
\<close>

theorem C1_failure_printed_exit_zero:
  assumes "outcome (convertidor lib ahora inp out fs) \<in> {InputNotFound, FormatError, UnexpectedError}"
  shows "status (convertidor lib ahora inp out fs) = ExitSuccess \<and>
         (\<exists>evs linea.
            eventos (convertidor lib ahora inp out fs) = Print (MsgInicio inp) # evs @ [Print linea]
            \<and> (\<forall>m. Print m \<notin> set evs)
            \<and> linea \<in> {MsgNoEncontrado inp} \<union> range MsgFormato \<union> range MsgInesperado)"
proof -
  let ?t = "try_body lib ahora inp out fs"
  from assms have st: "status (convertidor lib ahora inp out fs) = ExitSuccess"
    by (auto simp: status_convertidor)
  from assms obtain e where e: "snd (snd ?t) = Some e"
    by (cases "snd (snd ?t)") (auto simp: outcome_convertidor)
  then have ev: "eventos (convertidor lib ahora inp out fs)
      = Print (MsgInicio inp) # fst ?t @ [Print (fst (manejar inp e))]"
    by (cases ?t) (simp add: eventos_convertidor)
  from e have np: "\<forall>m. Print m \<notin> set (fst ?t)"
    using try_body_prints [of _ lib ahora inp out fs] by auto
  from assms e have "snd (manejar inp e) \<noteq> Uncaught"
    by (auto simp: outcome_convertidor)
  then have "fst (manejar inp e) \<in> {MsgNoEncontrado inp} \<union> range MsgFormato \<union> range MsgInesperado"
    by (auto simp: manejar_def split: if_splits)
  with st ev np show ?thesis by blast
qed

text \<open>The amended statement at the unsupported path \<^verbatim>\<open>foo.txt\<close>.\<close>

theorem C1_witness:
  "outcome (convertidor demo_lib ahora1 ''foo.txt'' ''salida.json'' demo_fs)
     \<in> {InputNotFound, FormatError, UnexpectedError}
   \<and> status (convertidor demo_lib ahora1 ''foo.txt'' ''salida.json'' demo_fs) = ExitSuccess"
proof -
  have h: "outcome (convertidor demo_lib ahora1 ''foo.txt'' ''salida.json'' demo_fs)
             \<in> {InputNotFound, FormatError, UnexpectedError}"
    by (simp add: run_unsupported(1) ext_otras)
  show ?thesis using h C1_failure_printed_exit_zero [OF h] by simp
qed

text \<open>The claim as stated fails there: the outcome is FormatError and the status
  is not a failure.\<close>

theorem C1_counterexample:
  "\<not> (outcome (convertidor demo_lib ahora1 ''foo.txt'' ''salida.json'' demo_fs)
          \<in> {InputNotFound, FormatError, UnexpectedError}
        \<longrightarrow> status (convertidor demo_lib ahora1 ''foo.txt'' ''salida.json'' demo_fs) = ExitFailure)"
  by (simp add: status_convertidor run_unsupported(1) ext_otras)

subsection \<open>C2: a missing output directory is reported as a missing input\<close>

text \<open>
  Claim C2 says that InputNotFound is reported exactly when the input path does not
  exist at load time, and that an I/O failure of the write stage is reported as
  UnexpectedError, never as InputNotFound. The handler \<^verbatim>\<open>except FileNotFoundError\<close>
  guards the whole \<^verbatim>\<open>try\<close> body, so it also catches the \<^verbatim>\<open>FileNotFoundError\<close> that
  \<^verbatim>\<open>open(archivo_salida, 'w')\<close> raises when the directory of the output path does not
  exist. The comment of the handler (line 76) says it is for a missing
  \<^verbatim>\<open>archivo_entrada\<close>.

  The run below reads an input file that exists and parses, fails to open the output
  path, and prints the line that names the input file as not found.
\<close>

theorem C2_output_open_failure_reported_as_input_not_found:
  "contents demo_fs ''datos_prueba.csv'' = Some (Raw csv_ventas)
   \<and> open_failure demo_fs ''sin_carpeta/salida.json'' = Some NoSuchDirectory
   \<and> outcome (convertidor demo_lib ahora1 ''datos_prueba.csv'' ''sin_carpeta/salida.json'' demo_fs)
       = InputNotFound
   \<and> eventos (convertidor demo_lib ahora1 ''datos_prueba.csv'' ''sin_carpeta/salida.json'' demo_fs)
       = [Print (MsgInicio ''datos_prueba.csv''), ReadCsv ''datos_prueba.csv'',
          OpenWrite ''sin_carpeta/salida.json'', Print (MsgNoEncontrado ''datos_prueba.csv'')]"
  using run_open_failure(1,3) [OF cargar_demo(1) normalizar_ventas open_demo(2), of ahora1]
  by (simp add: cargar_demo_eventos manejar_def isinstance_def) (simp add: demo_fs_def)

subsection \<open>C3: the record count is the number of rows\<close>

text \<open>
  Claim C3: for every valid input table with N data rows (the file loads as a table,
  the date column, when present, is normalised without error, the output path can be
  opened, and every value can be serialised), the run succeeds and the document
  written to the output path has \<^verbatim>\<open>registros_procesados\<close> equal to N and a \<^verbatim>\<open>datos\<close>
  array of exactly N elements; so \<^verbatim>\<open>registros_procesados\<close> is the length of \<^verbatim>\<open>datos\<close>.
\<close>

theorem C3_row_count:
  assumes "snd (cargar lib fs inp) = Inr df" and "normalizar lib df = Inr df'"
      and "open_failure fs out = None" and "doc_serializable (ensamblar ahora inp df')"
  shows "outcome (convertidor lib ahora inp out fs) = Success \<and>
         (\<exists>doc. written (fs_final (convertidor lib ahora inp out fs)) out = Some doc
            \<and> registros_procesados (metadata doc) = length (rows df)
            \<and> length (datos doc) = length (rows df)
            \<and> registros_procesados (metadata doc) = length (datos doc))"
proof -
  have "length (rows df') = length (rows df)"
    using assms(2) normalizar_shape by blast
  then show ?thesis
    using run_success(1,2) [OF assms] ensamblar_count [of ahora inp df']
    by (simp add: written_update)
qed

text \<open>The two sales of \<^verbatim>\<open>datos_prueba.csv\<close> give a document of two records.\<close>

theorem C3_witness:
  "snd (cargar demo_lib demo_fs ''datos_prueba.csv'') = Inr df_ventas
   \<and> normalizar demo_lib df_ventas = Inr df_ventas_norm
   \<and> open_failure demo_fs ''salida.json'' = None
   \<and> doc_serializable (ensamblar ahora1 ''datos_prueba.csv'' df_ventas_norm)
   \<and> outcome (convertidor demo_lib ahora1 ''datos_prueba.csv'' ''salida.json'' demo_fs) = Success
   \<and> (\<exists>doc. written (fs_final (convertidor demo_lib ahora1 ''datos_prueba.csv'' ''salida.json'' demo_fs))
               ''salida.json'' = Some doc
          \<and> registros_procesados (metadata doc) = 2 \<and> length (datos doc) = 2)"
proof -
  have l: "length (rows df_ventas) = 2" by (simp add: df_ventas_def)
  have s: "doc_serializable (ensamblar ahora1 ''datos_prueba.csv'' df_ventas_norm)"
    by (rule serializable_ventas)
  show ?thesis
    using C3_row_count [OF cargar_demo(1) normalizar_ventas open_demo(1) s]
      cargar_demo(1) normalizar_ventas open_demo(1) s
    by (auto simp: l)
qed

subsection \<open>C4: the date column is rewritten, except for missing dates\<close>

text \<open>
  Claim C4 says that when the table has a column named exactly \<^verbatim>\<open>Fecha_Compra\<close>, every
  value of that column is rewritten to the form \<^verbatim>\<open>YYYY-MM-DD\<close> before serialisation.
  This fails for a missing value: \<^verbatim>\<open>to_datetime\<close> turns it into \<^verbatim>\<open>NaT\<close>, and
  \<^verbatim>\<open>.dt.strftime\<close> turns \<^verbatim>\<open>NaT\<close> into \<^verbatim>\<open>NaN\<close>, which is written as it is.

  Claim C4 as amended: in a successful run on a table with a column \<^verbatim>\<open>Fecha_Compra\<close>,
  every row whose value \<^verbatim>\<open>to_datetime\<close> converts to a timestamp has in the output the
  text \<^verbatim>\<open>'%Y-%m-%d'\<close> of that timestamp, which is of the form \<^verbatim>\<open>YYYY-MM-DD\<close>; every
  row whose value it converts to \<^verbatim>\<open>NaT\<close> has \<^verbatim>\<open>NaN\<close> there, which is not of that form.
\<close>

theorem C4_dates_rewritten:
  assumes "outcome (convertidor lib ahora inp out fs) = Success"
      and "snd (cargar lib fs inp) = Inr df" and "wf_df df"
      and "''Fecha_Compra'' \<in> set (columns df)"
      and "to_datetime lib (getitem df ''Fecha_Compra'') = Inr ts"
  shows "\<exists>doc. written (fs_final (convertidor lib ahora inp out fs)) out = Some doc
           \<and> length (datos doc) = length (rows df)
           \<and> (\<forall>k<length (rows df).
                 (\<forall>t. k < length ts \<and> ts ! k = Some t \<longrightarrow>
                    map_of (datos doc ! k) ''Fecha_Compra'' = Some (VStr (strftime_Ymd t))
                    \<and> fecha_canonica (datos doc ! k))
               \<and> ((k < length ts \<longrightarrow> ts ! k = None) \<longrightarrow>
                    map_of (datos doc ! k) ''Fecha_Compra'' = Some VNaN
                    \<and> \<not> fecha_canonica (datos doc ! k)))"
proof -
  from success_inversion [OF assms(1)] assms(2)
  obtain df' where n: "normalizar lib df = Inr df'" and o: "open_failure fs out = None"
    and s: "doc_serializable (ensamblar ahora inp df')" by auto
  let ?doc = "ensamblar ahora inp df'"
  have w: "written (fs_final (convertidor lib ahora inp out fs)) out = Some ?doc"
    using run_success(2) [OF assms(2) n o s] by (simp add: written_update)
  have l: "length (datos ?doc) = length (rows df)"
    using n normalizar_shape ensamblar_count by metis
  have v: "map_of (datos ?doc ! k) ''Fecha_Compra''
             = Some (if k < length ts
                     then (case ts ! k of None \<Rightarrow> VNaN | Some d \<Rightarrow> VStr (strftime_Ymd d))
                     else VNaN)"
    if "k < length (rows df)" for k
    using datos_lookup [OF n assms(3) that assms(4), of ahora inp]
      normalizar_fecha [OF n assms(4,5) that assms(3)] by simp
  have "(\<forall>t. k < length ts \<and> ts ! k = Some t \<longrightarrow>
            map_of (datos ?doc ! k) ''Fecha_Compra'' = Some (VStr (strftime_Ymd t))
            \<and> fecha_canonica (datos ?doc ! k))
        \<and> ((k < length ts \<longrightarrow> ts ! k = None) \<longrightarrow>
            map_of (datos ?doc ! k) ''Fecha_Compra'' = Some VNaN
            \<and> \<not> fecha_canonica (datos ?doc ! k))"
    if "k < length (rows df)" for k
    using v [OF that] by (auto simp: fecha_canonica_def is_Ymd_strftime)
  with w l show ?thesis by blast
qed

text \<open>The input value \<^verbatim>\<open>03/15/2024\<close> of the first sale appears in the output as
  \<^verbatim>\<open>2024-03-15\<close>.\<close>

theorem C4_witness:
  "outcome (convertidor demo_lib ahora1 ''datos_prueba.csv'' ''salida.json'' demo_fs) = Success
   \<and> snd (cargar demo_lib demo_fs ''datos_prueba.csv'') = Inr df_ventas
   \<and> wf_df df_ventas
   \<and> ''Fecha_Compra'' \<in> set (columns df_ventas)
   \<and> getitem df_ventas ''Fecha_Compra'' = [VStr ''03/15/2024'', VStr ''12/01/2023'']
   \<and> to_datetime demo_lib (getitem df_ventas ''Fecha_Compra'')
        = Inr [Some (Timestamp 2024 3 15), Some (Timestamp 2023 12 1)]
   \<and> (\<exists>doc. written (fs_final (convertidor demo_lib ahora1 ''datos_prueba.csv'' ''salida.json'' demo_fs))
               ''salida.json'' = Some doc
          \<and> map_of (datos doc ! 0) ''Fecha_Compra'' = Some (VStr ''2024-03-15'')
          \<and> fecha_canonica (datos doc ! 0))"
proof -
  have c: "''Fecha_Compra'' \<in> set (columns df_ventas)" by (simp add: df_ventas_def)
  have l: "0 < length (rows df_ventas)" by (simp add: df_ventas_def)
  from C4_dates_rewritten [OF run_ventas_success cargar_demo(1) wf_demo(1) c to_datetime_ventas]
  obtain doc where
    w: "written (fs_final (convertidor demo_lib ahora1 ''datos_prueba.csv'' ''salida.json'' demo_fs))
          ''salida.json'' = Some doc"
    and k: "\<forall>k<length (rows df_ventas).
        (\<forall>t. k < length [Some (Timestamp 2024 3 15), Some (Timestamp 2023 12 1)]
              \<and> [Some (Timestamp 2024 3 15), Some (Timestamp 2023 12 1)] ! k = Some t \<longrightarrow>
            map_of (datos doc ! k) ''Fecha_Compra'' = Some (VStr (strftime_Ymd t))
            \<and> fecha_canonica (datos doc ! k))
        \<and> ((k < length [Some (Timestamp 2024 3 15), Some (Timestamp 2023 12 1)]
              \<longrightarrow> [Some (Timestamp 2024 3 15), Some (Timestamp 2023 12 1)] ! k = None) \<longrightarrow>
            map_of (datos doc ! k) ''Fecha_Compra'' = Some VNaN
            \<and> \<not> fecha_canonica (datos doc ! k))"
    by blast
  from k l have "map_of (datos doc ! 0) ''Fecha_Compra'' = Some (VStr ''2024-03-15'')
      \<and> fecha_canonica (datos doc ! 0)"
    by (simp add: strftime_ejemplo)
  with w show ?thesis
    using run_ventas_success cargar_demo(1) wf_demo(1) c getitem_ventas to_datetime_ventas
    by auto
qed

text \<open>The claim as stated fails on a file whose only row has an empty date: the run
  succeeds, and the value written in the column is \<^verbatim>\<open>NaN\<close>.\<close>

theorem C4_counterexample:
  "''Fecha_Compra'' \<in> set (columns df_fecha_vacia)
   \<and> snd (cargar demo_lib demo_fs ''fecha_vacia.csv'') = Inr df_fecha_vacia
   \<and> outcome (convertidor demo_lib ahora1 ''fecha_vacia.csv'' ''salida.json'' demo_fs) = Success
   \<and> written (fs_final (convertidor demo_lib ahora1 ''fecha_vacia.csv'' ''salida.json'' demo_fs))
        ''salida.json'' = Some doc_fecha_vacia
   \<and> map_of (datos doc_fecha_vacia ! 0) ''Fecha_Compra'' = Some VNaN
   \<and> \<not> list_all fecha_canonica (datos doc_fecha_vacia)"
proof -
  have s: "doc_serializable (ensamblar ahora1 ''fecha_vacia.csv'' df_fecha_vacia)"
    by (simp add: ensamblar_fecha_vacia serializable_fecha_vacia)
  have "''Fecha_Compra'' \<in> set (columns df_fecha_vacia)"
    by (simp add: df_fecha_vacia_def)
  moreover have "map_of (datos doc_fecha_vacia ! 0) ''Fecha_Compra'' = Some VNaN"
    "\<not> list_all fecha_canonica (datos doc_fecha_vacia)"
    by (simp_all add: doc_fecha_vacia_def fecha_canonica_def)
  ultimately show ?thesis
    using run_success(1,2) [OF cargar_demo(3) normalizar_fecha_vacia open_demo(1) s]
    by (simp add: cargar_demo written_update ensamblar_fecha_vacia)
qed

subsection \<open>C5: the extension selects the reader\<close>

text \<open>
  Claim C5: format detection compares the extracted extension, case-sensitively, with
  \<^verbatim>\<open>.xlsx\<close> and \<^verbatim>\<open>.csv\<close>. When the extension is \<^verbatim>\<open>.xlsx\<close> the only reader called in the
  run is the Excel reader on the input path, and the load is its result; when it is
  \<^verbatim>\<open>.csv\<close> the same holds for the CSV reader; for every other extension no reader is
  called and the run ends in FormatError.
\<close>

theorem C5_format_detection:
  "(snd (splitext lib inp) = ''.xlsx'' \<longrightarrow>
      filter is_read (eventos (convertidor lib ahora inp out fs)) = [ReadExcel inp]
      \<and> snd (cargar lib fs inp) = pd_read (read_excel lib) fs inp)
   \<and> (snd (splitext lib inp) = ''.csv'' \<longrightarrow>
      filter is_read (eventos (convertidor lib ahora inp out fs)) = [ReadCsv inp]
      \<and> snd (cargar lib fs inp) = pd_read (read_csv lib) fs inp)
   \<and> (snd (splitext lib inp) \<noteq> ''.xlsx'' \<and> snd (splitext lib inp) \<noteq> ''.csv'' \<longrightarrow>
      filter is_read (eventos (convertidor lib ahora inp out fs)) = []
      \<and> outcome (convertidor lib ahora inp out fs) = FormatError)"
  by (simp add: eventos_reads cargar_eventos cargar_result run_unsupported(1))

text \<open>A workbook path, a CSV path, the differently-cased \<^verbatim>\<open>DATOS.CSV\<close> and a path
  without extension.\<close>

theorem C5_witness:
  "snd (splitext demo_lib ''libro.xlsx'') = ''.xlsx''
   \<and> filter is_read (eventos (convertidor demo_lib ahora1 ''libro.xlsx'' ''salida.json'' demo_fs))
        = [ReadExcel ''libro.xlsx'']
   \<and> snd (splitext demo_lib ''datos_prueba.csv'') = ''.csv''
   \<and> filter is_read (eventos (convertidor demo_lib ahora1 ''datos_prueba.csv'' ''salida.json'' demo_fs))
        = [ReadCsv ''datos_prueba.csv'']
   \<and> snd (splitext demo_lib ''DATOS.CSV'') = ''.CSV''
   \<and> outcome (convertidor demo_lib ahora1 ''DATOS.CSV'' ''salida.json'' demo_fs) = FormatError
   \<and> snd (splitext demo_lib ''datos'') = []
   \<and> outcome (convertidor demo_lib ahora1 ''datos'' ''salida.json'' demo_fs) = FormatError"
  using C5_format_detection [of demo_lib "''libro.xlsx''" ahora1 "''salida.json''" demo_fs]
    C5_format_detection [of demo_lib "''datos_prueba.csv''" ahora1 "''salida.json''" demo_fs]
    C5_format_detection [of demo_lib "''DATOS.CSV''" ahora1 "''salida.json''" demo_fs]
    C5_format_detection [of demo_lib "''datos''" ahora1 "''salida.json''" demo_fs]
  by (simp add: ext_csv ext_otras)

subsection \<open>C6: no output on FormatError or InputNotFound\<close>

text \<open>
  Claim C6: for every run that ends in FormatError or InputNotFound, the file system
  after the run is the file system before it: no output file is created or modified,
  and a file left by an earlier run is untouched.
\<close>

theorem C6_no_output_on_format_or_missing:
  assumes "outcome (convertidor lib ahora inp out fs) = FormatError
           \<or> outcome (convertidor lib ahora inp out fs) = InputNotFound"
  shows "fs_final (convertidor lib ahora inp out fs) = fs"
proof -
  let ?t = "try_body lib ahora inp out fs"
  from assms have notnone: "snd (snd ?t) \<noteq> None"
    by (cases "snd (snd ?t)") (auto simp: outcome_convertidor)
  have "snd (snd ?t) \<noteq> Some (PyExc TypeError ''Object of type Timestamp is not JSON serializable'')"
    using assms by (auto simp: outcome_convertidor manejar_def isinstance_def)
  with notnone try_body_fs [of lib ahora inp out fs] show ?thesis
    by (auto simp: fs_final_convertidor)
qed

text \<open>The runs on \<^verbatim>\<open>foo.txt\<close> and on a CSV path that does not exist leave the document
  of the earlier run at \<^verbatim>\<open>salida.json\<close>.\<close>

theorem C6_witness:
  "outcome (convertidor demo_lib ahora1 ''foo.txt'' ''salida.json'' demo_fs) = FormatError
   \<and> fs_final (convertidor demo_lib ahora1 ''foo.txt'' ''salida.json'' demo_fs) = demo_fs
   \<and> outcome (convertidor demo_lib ahora1 ''no_existe.csv'' ''salida.json'' demo_fs) = InputNotFound
   \<and> fs_final (convertidor demo_lib ahora1 ''no_existe.csv'' ''salida.json'' demo_fs) = demo_fs
   \<and> written demo_fs ''salida.json'' = Some doc_anterior"
proof -
  have f: "outcome (convertidor demo_lib ahora1 ''foo.txt'' ''salida.json'' demo_fs) = FormatError"
    by (simp add: run_unsupported(1) ext_otras)
  have n: "outcome (convertidor demo_lib ahora1 ''no_existe.csv'' ''salida.json'' demo_fs) = InputNotFound"
    by (simp add: run_load_error(1) [OF cargar_demo(4)] manejar_def isinstance_def)
  have w: "written demo_fs ''salida.json'' = Some doc_anterior"
    by (simp add: written_def demo_fs_def)
  from f have f': "outcome (convertidor demo_lib ahora1 ''foo.txt'' ''salida.json'' demo_fs) = FormatError
      \<or> outcome (convertidor demo_lib ahora1 ''foo.txt'' ''salida.json'' demo_fs) = InputNotFound"
    by simp
  from n have n': "outcome (convertidor demo_lib ahora1 ''no_existe.csv'' ''salida.json'' demo_fs) = FormatError
      \<or> outcome (convertidor demo_lib ahora1 ''no_existe.csv'' ''salida.json'' demo_fs) = InputNotFound"
    by simp
  show ?thesis
    using f n w C6_no_output_on_format_or_missing [OF f'] C6_no_output_on_format_or_missing [OF n']
    by simp
qed

subsection \<open>C7: a date that cannot be parsed is reported as a format error\<close>

text \<open>
  Claim C7 says that a value of \<^verbatim>\<open>Fecha_Compra\<close> that cannot be parsed as a date ends
  the run in UnexpectedError, with no output file written and no row emitted. Nothing
  is written indeed, but the outcome is FormatError: \<^verbatim>\<open>pandas.to_datetime\<close> raises a
  subclass of \<^verbatim>\<open>ValueError\<close>, and the handler \<^verbatim>\<open>except ValueError\<close> comes before the
  catch-all. The comment of that handler (line 79) says it is for the error the script
  raises itself on an unsupported extension, and the comment of the catch-all (line 82)
  that it is for any other error.

  The run below loads a CSV file whose date is the text \<^verbatim>\<open>no-es-fecha\<close>, prints the
  line of the format error, and leaves the file system as it was.
\<close>

theorem C7_bad_date_reported_as_format_error:
  "snd (cargar demo_lib demo_fs ''fecha_mala.csv'') = Inr df_fecha_mala
   \<and> getitem df_fecha_mala ''Fecha_Compra'' = [VStr ''no-es-fecha'']
   \<and> outcome (convertidor demo_lib ahora1 ''fecha_mala.csv'' ''salida.json'' demo_fs) = FormatError
   \<and> outcome (convertidor demo_lib ahora1 ''fecha_mala.csv'' ''salida.json'' demo_fs) \<noteq> UnexpectedError
   \<and> eventos (convertidor demo_lib ahora1 ''fecha_mala.csv'' ''salida.json'' demo_fs)
       = [Print (MsgInicio ''fecha_mala.csv''), ReadCsv ''fecha_mala.csv'',
          Print (MsgFormato ''Unknown datetime string format, unable to parse: no-es-fecha'')]
   \<and> fs_final (convertidor demo_lib ahora1 ''fecha_mala.csv'' ''salida.json'' demo_fs) = demo_fs"
  using run_normalize_error [OF cargar_demo(2) normalizar_fecha_mala, of ahora1 "''salida.json''"]
  by (simp add: cargar_demo cargar_demo_eventos manejar_def isinstance_def)
     (simp add: getitem_def df_fecha_mala_def cell_def)

subsection \<open>C8: the other columns pass through\<close>

text \<open>
  Claim C8: in a successful run, for every column of the loaded table whose name is not
  \<^verbatim>\<open>Fecha_Compra\<close>, every row of the output \<^verbatim>\<open>datos\<close> array has, under that name, the
  value that was loaded for that row and column, unchanged, whether or not a column
  \<^verbatim>\<open>Fecha_Compra\<close> exists.
\<close>

theorem C8_passthrough:
  assumes "outcome (convertidor lib ahora inp out fs) = Success"
      and "snd (cargar lib fs inp) = Inr df" and "wf_df df"
  shows "\<exists>doc. written (fs_final (convertidor lib ahora inp out fs)) out = Some doc
           \<and> length (datos doc) = length (rows df)
           \<and> (\<forall>k c. k < length (rows df) \<and> c \<in> set (columns df) \<and> c \<noteq> ''Fecha_Compra''
                 \<longrightarrow> map_of (datos doc ! k) c = Some (rows df ! k ! index_of (columns df) c))"
proof -
  from success_inversion [OF assms(1)] assms(2)
  obtain df' where n: "normalizar lib df = Inr df'" and o: "open_failure fs out = None"
    and s: "doc_serializable (ensamblar ahora inp df')" by auto
  let ?doc = "ensamblar ahora inp df'"
  have w: "written (fs_final (convertidor lib ahora inp out fs)) out = Some ?doc"
    using run_success(2) [OF assms(2) n o s] by (simp add: written_update)
  have l: "length (datos ?doc) = length (rows df)"
    using n normalizar_shape ensamblar_count by metis
  have "map_of (datos ?doc ! k) c = Some (rows df ! k ! index_of (columns df) c)"
    if "k < length (rows df)" "c \<in> set (columns df)" "c \<noteq> ''Fecha_Compra''" for k c
    using that datos_lookup [OF n assms(3) that(1,2), of ahora inp]
      normalizar_row(2) [OF n that(1)] index_of_neq [OF that(2,3)] by simp
  with w l show ?thesis by blast
qed

text \<open>The client of the first sale and the amount of the second.\<close>

theorem C8_witness:
  "outcome (convertidor demo_lib ahora1 ''datos_prueba.csv'' ''salida.json'' demo_fs) = Success
   \<and> snd (cargar demo_lib demo_fs ''datos_prueba.csv'') = Inr df_ventas
   \<and> wf_df df_ventas
   \<and> (\<exists>doc. written (fs_final (convertidor demo_lib ahora1 ''datos_prueba.csv'' ''salida.json'' demo_fs))
               ''salida.json'' = Some doc
          \<and> map_of (datos doc ! 0) ''Cliente'' = Some (VStr ''Ana'')
          \<and> map_of (datos doc ! 1) ''Monto'' = Some (VInt 80))"
proof -
  from C8_passthrough [OF run_ventas_success cargar_demo(1) wf_demo(1)]
  obtain doc where
    w: "written (fs_final (convertidor demo_lib ahora1 ''datos_prueba.csv'' ''salida.json'' demo_fs))
          ''salida.json'' = Some doc"
    and p: "\<forall>k c. k < length (rows df_ventas) \<and> c \<in> set (columns df_ventas) \<and> c \<noteq> ''Fecha_Compra''
                 \<longrightarrow> map_of (datos doc ! k) c = Some (rows df_ventas ! k ! index_of (columns df_ventas) c)"
    by blast
  have "0 < length (rows df_ventas) \<and> ''Cliente'' \<in> set (columns df_ventas) \<and> ''Cliente'' \<noteq> ''Fecha_Compra''"
    by (simp add: df_ventas_def)
  with p have a: "map_of (datos doc ! 0) ''Cliente'' = Some (rows df_ventas ! 0 ! index_of (columns df_ventas) ''Cliente'')"
    by blast
  have "1 < length (rows df_ventas) \<and> ''Monto'' \<in> set (columns df_ventas) \<and> ''Monto'' \<noteq> ''Fecha_Compra''"
    by (simp add: df_ventas_def)
  with p have b: "map_of (datos doc ! 1) ''Monto'' = Some (rows df_ventas ! 1 ! index_of (columns df_ventas) ''Monto'')"
    by blast
  from a b have "map_of (datos doc ! 0) ''Cliente'' = Some (VStr ''Ana'')
      \<and> map_of (datos doc ! 1) ''Monto'' = Some (VInt 80)"
    by (simp add: df_ventas_def)
  with w show ?thesis
    using run_ventas_success cargar_demo(1) wf_demo(1) by auto
qed

subsection \<open>C9: two runs differ only in the timestamp\<close>

text \<open>
  Claim C9: when the converter runs twice on the same valid input file with the same
  output path (the second run starting from the file system the first one left, with
  any clock reading), the second run succeeds as the first did, the two documents
  have identical \<^verbatim>\<open>datos\<close>, and the second document is the first with only
  \<^verbatim>\<open>fecha_conversion\<close> replaced by the second clock reading. The input path is not
  the output path, so that the second run reads the same input file.
\<close>

theorem C9_two_runs:
  assumes "inp \<noteq> out" and "outcome (convertidor lib t1 inp out fs) = Success"
  shows "outcome (convertidor lib t2 inp out (fs_final (convertidor lib t1 inp out fs))) = Success \<and>
         (\<exists>d1 d2.
            written (fs_final (convertidor lib t1 inp out fs)) out = Some d1
            \<and> written (fs_final (convertidor lib t2 inp out
                  (fs_final (convertidor lib t1 inp out fs)))) out = Some d2
            \<and> datos d2 = datos d1
            \<and> d2 = d1\<lparr>metadata := (metadata d1)\<lparr>fecha_conversion := t2\<rparr>\<rparr>)"
proof -
  from success_inversion [OF assms(2)]
  obtain df df' where c: "snd (cargar lib fs inp) = Inr df" and n: "normalizar lib df = Inr df'"
    and o: "open_failure fs out = None" and s: "doc_serializable (ensamblar t1 inp df')"
    by blast
  let ?fs1 = "fs\<lparr>contents := (contents fs)(out \<mapsto> JsonText (ensamblar t1 inp df'))\<rparr>"
  have f1: "fs_final (convertidor lib t1 inp out fs) = ?fs1"
    by (rule run_success(2) [OF c n o s])
  have c1: "snd (cargar lib ?fs1 inp) = Inr df"
    using assms(1) c cargar_same_file [of ?fs1 inp fs lib] by simp
  have o1: "open_failure ?fs1 out = None"
    using o by simp
  have s2: "doc_serializable (ensamblar t2 inp df')"
    using s by (simp add: doc_serializable_def ensamblar_def Let_def)
  have d: "ensamblar t2 inp df'
             = (ensamblar t1 inp df')\<lparr>metadata := (metadata (ensamblar t1 inp df'))\<lparr>fecha_conversion := t2\<rparr>\<rparr>"
    "datos (ensamblar t2 inp df') = datos (ensamblar t1 inp df')"
    by (simp_all add: ensamblar_def Let_def)
  show ?thesis
    using run_success(1,2) [OF c1 n o1 s2] d
    by (simp add: f1 written_update)
qed

text \<open>Two runs on \<^verbatim>\<open>datos_prueba.csv\<close>, five minutes apart.\<close>

theorem C9_witness:
  "''datos_prueba.csv'' \<noteq> ''salida.json''
   \<and> outcome (convertidor demo_lib ahora1 ''datos_prueba.csv'' ''salida.json'' demo_fs) = Success
   \<and> outcome (convertidor demo_lib ahora2 ''datos_prueba.csv'' ''salida.json''
        (fs_final (convertidor demo_lib ahora1 ''datos_prueba.csv'' ''salida.json'' demo_fs))) = Success
   \<and> (\<exists>d1 d2.
        written (fs_final (convertidor demo_lib ahora1 ''datos_prueba.csv'' ''salida.json'' demo_fs))
          ''salida.json'' = Some d1
        \<and> written (fs_final (convertidor demo_lib ahora2 ''datos_prueba.csv'' ''salida.json''
            (fs_final (convertidor demo_lib ahora1 ''datos_prueba.csv'' ''salida.json'' demo_fs))))
          ''salida.json'' = Some d2
        \<and> datos d2 = datos d1)"
proof -
  have h: "''datos_prueba.csv'' \<noteq> ''salida.json''" by simp
  from C9_two_runs [OF h run_ventas_success [of ahora1], where ?t2.0 = ahora2]
    run_ventas_success [of ahora1] h
  show ?thesis by blast
qed

subsection \<open>C10: format detection comes before any file access\<close>

text \<open>
  Claim C10: for every input path whose extension is neither \<^verbatim>\<open>.xlsx\<close> nor \<^verbatim>\<open>.csv\<close>,
  in any file system (also one with no file at that path), the run ends in FormatError
  without any event that touches a file, and leaves the file system unchanged; and a
  run that ends in InputNotFound has an input path with one of the two recognised
  extensions.
\<close>

theorem C10_format_before_files:
  "(snd (splitext lib inp) \<noteq> ''.xlsx'' \<and> snd (splitext lib inp) \<noteq> ''.csv'' \<longrightarrow>
      outcome (convertidor lib ahora inp out fs) = FormatError
      \<and> \<not> list_ex touches_files (eventos (convertidor lib ahora inp out fs))
      \<and> fs_final (convertidor lib ahora inp out fs) = fs)
   \<and> (outcome (convertidor lib ahora inp out fs) = InputNotFound \<longrightarrow>
      snd (splitext lib inp) = ''.xlsx'' \<or> snd (splitext lib inp) = ''.csv'')"
  using input_not_found_recognized [of lib ahora inp out fs]
  by (auto simp: run_unsupported)

text \<open>A path with extension \<^verbatim>\<open>.txt\<close> at which no file exists, and a CSV path at which
  no file exists.\<close>

theorem C10_witness:
  "contents demo_fs ''no_existe.txt'' = None
   \<and> snd (splitext demo_lib ''no_existe.txt'') = ''.txt''
   \<and> outcome (convertidor demo_lib ahora1 ''no_existe.txt'' ''salida.json'' demo_fs) = FormatError
   \<and> \<not> list_ex touches_files (eventos (convertidor demo_lib ahora1 ''no_existe.txt'' ''salida.json'' demo_fs))
   \<and> outcome (convertidor demo_lib ahora1 ''no_existe.csv'' ''salida.json'' demo_fs) = InputNotFound
   \<and> snd (splitext demo_lib ''no_existe.csv'') = ''.csv''"
proof -
  have n: "outcome (convertidor demo_lib ahora1 ''no_existe.csv'' ''salida.json'' demo_fs) = InputNotFound"
    by (simp add: run_load_error(1) [OF cargar_demo(4)] manejar_def isinstance_def)
  have c: "contents demo_fs ''no_existe.txt'' = None" by (simp add: demo_fs_def)
  show ?thesis
    using n c C10_format_before_files [of demo_lib "''no_existe.txt''" ahora1 "''salida.json''" demo_fs]
      C10_format_before_files [of demo_lib "''no_existe.csv''" ahora1 "''salida.json''" demo_fs]
    by (simp add: ext_otras ext_no_existe_csv)
qed

end
